theory Spec2Isabelle
  imports Main "HOL-Library.AList" "HOL-Library.Multiset"
begin

section \<open>Go values shared by the embedded functions\<close>

text \<open>
  Go strings and byte slices are byte sequences: both are \<open>string\<close> (a \<open>char list\<close>).
  A Go \<open>error\<close> value is an element of \<open>err\<close>; a nil error is \<open>None\<close> of \<open>err option\<close>.
  The three sentinels are the ones the embedded code compares against by identity
  (\<open>io.EOF\<close>, \<open>context.Canceled\<close>, \<open>context.DeadlineExceeded\<close>); every other
  error is \<open>ErrorString\<close> with its text.
\<close>

type_synonym bytes = string

datatype err = EOF | Canceled | DeadlineExceeded | ErrorString string

text \<open>The \<open>Error()\<close> method, used where the source formats an error with \<open>%s\<close>.\<close>

fun Error :: "err \<Rightarrow> string" where
  "Error EOF = ''EOF''"
| "Error Canceled = ''context canceled''"
| "Error DeadlineExceeded = ''context deadline exceeded''"
| "Error (ErrorString s) = s"



section \<open>\<open>isPortLayerRunning\<close> (lib/install/management/appliance.go)\<close>

text \<open>
  \<open>dockertypes.Info\<close> is declared outside the repository; the function reads two of its
  fields: \<open>Driver string\<close> and \<open>SystemStatus [][2]string\<close>. An element of type
  \<open>[2]string\<close> is a pair, so \<open>status[0]\<close> and \<open>status[1]\<close> are \<open>fst\<close> and \<open>snd\<close> and
  neither index can be out of range.
\<close>

record Info =
  Driver :: string
  SystemStatus :: "(string \<times> string) list"

text \<open>
  The response body is an \<open>io.ReadCloser\<close>. \<open>Reader data failure\<close> is a body that
  delivers \<open>data\<close> and then ends, cleanly when \<open>failure\<close> is \<open>None\<close> and with the
  error otherwise. \<open>ioutil.ReadAll\<close> returns what was read together with the error.
\<close>

datatype ReadCloser = Reader bytes "err option"

fun ReadAll :: "ReadCloser \<Rightarrow> bytes \<times> err option" where
  "ReadAll (Reader resBody failure) = (resBody, failure)"

record Response =
  StatusCode :: nat
  Body :: ReadCloser

text \<open>
  The loop over \<open>sysInfo.SystemStatus\<close>: the first entry whose name is the driver
  decides the result, later entries are never looked at.
\<close>

fun statusLoop :: "string \<Rightarrow> (string \<times> string) list \<Rightarrow> bool" where
  "statusLoop driver [] = False"
| "statusLoop driver (status # rest) =
     (if fst status = driver then snd status = ''RUNNING'' else statusLoop driver rest)"

text \<open>
  \<open>json.Unmarshal\<close> belongs to the Go standard library and is a parameter: it maps
  the body to an error or to the decoded \<open>Info\<close>. The pointer \<open>res\<close> is the response
  of a successful \<open>client.Do\<close> (the only caller checks \<open>err == nil\<close> first), so it is
  a value here. The deferred \<open>res.Body.Close()\<close> does not change the result.
\<close>

definition isPortLayerRunning :: "(bytes \<Rightarrow> err + Info) \<Rightarrow> Response \<Rightarrow> bool" where
  "isPortLayerRunning Unmarshal res =
     (case ReadAll (Body res) of
        (resBody, Some e) \<Rightarrow> False
      | (resBody, None) \<Rightarrow>
          (case Unmarshal resBody of
             Inl e \<Rightarrow> False
           | Inr sysInfo \<Rightarrow> statusLoop (Driver sysInfo) (SystemStatus sysInfo)))"


section \<open>\<open>ensureApplianceInitializes\<close> (lib/install/management/appliance.go)\<close>

text \<open>
  \<open>d.appliance\<close> is a pointer that the function tests against nil: \<open>vm option\<close>.
  \<open>d.ctx\<close> is the caller's context until the function replaces it by
  \<open>context.WithTimeout(context.Background(), 10*time.Second)\<close>, whose deferred
  \<open>cancel()\<close> runs when the function returns.
\<close>

datatype vm = VirtualMachine string

datatype gocontext = CallerContext | Background_WithTimeout nat | Cancelled gocontext

text \<open>
  Of the configuration the function reads \<open>conf.ExecutorConfig.Networks["client"].Assigned.IP\<close>
  to decide its result and, when it reports a timeout, every entry of \<open>Networks\<close> and
  of \<open>Sessions\<close>. Both are Go maps to pointers: a missing key yields nil, a stored
  pointer can be nil, and reading a field through nil panics. A stored pointer is
  therefore an option. The log lines themselves are not modelled. The pointer \<open>conf\<close>
  and the receiver \<open>d\<close> are values: the callers pass the address of their own
  configuration.
\<close>

type_synonym IP = "nat list"

record NetworkEndpoint =
  Assigned_IP :: IP

record SessionConfig =
  Started :: string

record VirtualContainerHostConfigSpec =
  Networks :: "string \<rightharpoonup> NetworkEndpoint option"
  Sessions :: "string \<rightharpoonup> SessionConfig option"



text \<open>
  What the function calls outside this file is a parameter, over a state \<open>'w\<close> of the
  world outside the process (the guest, vSphere, the clock):
  \<open>vm.WaitForKeyInExtraConfig\<close> blocks and returns the world as it is afterwards;
  \<open>vm.FetchExtraConfig\<close> returns an error or the guest's key/value pairs (\<open>'x\<close>);
  \<open>extraconfig.Decode\<close> writes them into the configuration; \<open>ctxErr\<close> is
  \<open>ctx.Err()\<close>, which depends on the time; \<open>ip.IsUnspecifiedIP\<close> and \<open>net.IP.String\<close>
  are functions of the address.
\<close>

record ('w, 'x) vsphere =
  WaitForKeyInExtraConfig :: "vm option \<Rightarrow> gocontext \<Rightarrow> string \<Rightarrow> 'w \<Rightarrow> 'w"
  FetchExtraConfig :: "vm option \<Rightarrow> gocontext \<Rightarrow> 'w \<Rightarrow> (err + 'x) \<times> 'w"
  Decode :: "'x \<Rightarrow> VirtualContainerHostConfigSpec \<Rightarrow> VirtualContainerHostConfigSpec"
  ctxErr :: "gocontext \<Rightarrow> 'w \<Rightarrow> err option"
  IsUnspecifiedIP :: "IP \<Rightarrow> bool"
  IP_String :: "IP \<Rightarrow> string"












section \<open>\<open>mockBackChannel\<close> (the test helper that performs the client handshake)\<close>

text \<open>
  Each round of the \<open>for { select { ... } }\<close> loop blocks until one of two channels
  delivers. \<open>Tick r\<close>: the ticker fired and \<open>serial.HandshakeClient(conn, true)\<close>
  returned \<open>r\<close>. \<open>CtxDone e\<close>: \<open>ctx.Done()\<close> delivered and \<open>ctx.Err()\<close> is \<open>e\<close>. The list
  of events is what the scheduler, the peer and the caller's context make happen, in
  order; when it is used up the loop is still blocked in \<open>select\<close>.
\<close>

datatype event = Tick "err option" | CtxDone err

datatype Conn = HalfDuplexFileConn nat nat

datatype flag = O_RDONLY | O_WRONLY

text \<open>
  What the loop changes: the ticker (its period in milliseconds, whether \<open>Stop\<close> was
  called), the connection (whether \<open>Close\<close> was called), the number of calls of
  \<open>HandshakeClient\<close> and the errors passed to \<open>log.Error\<close>.
\<close>

record backchannel =
  interval_ms :: nat
  ticker_stopped :: bool
  conn_closed :: bool
  handshakes :: nat
  logged :: "err list"

definition NewTicker :: "nat \<Rightarrow> backchannel" where
  "NewTicker ms =
     \<lparr>interval_ms = ms, ticker_stopped = False, conn_closed = False, handshakes = 0, logged = []\<rparr>"

fun handshakeLoop :: "Conn \<Rightarrow> event list \<Rightarrow> backchannel \<Rightarrow> ((err + Conn) \<times> backchannel) option" where
  "handshakeLoop conn [] ch = None"
| "handshakeLoop conn (Tick r # evs) ch =
     (case r of
        Some e \<Rightarrow>
          if e = EOF then Some (Inl e, ch\<lparr>handshakes := Suc (handshakes ch)\<rparr>)
          else handshakeLoop conn evs
                 (ch\<lparr>handshakes := Suc (handshakes ch), logged := logged ch @ [e]\<rparr>)
      | None \<Rightarrow> Some (Inr conn, ch\<lparr>handshakes := Suc (handshakes ch)\<rparr>))"
| "handshakeLoop conn (CtxDone e # evs) ch =
     Some (Inl e, ch\<lparr>conn_closed := True, ticker_stopped := True\<rparr>)"

text \<open>
  \<open>os.OpenFile\<close>, \<open>serial.NewHalfDuplexFileConn\<close> and the package variable
  \<open>pathPrefix\<close> are parameters. The result is \<open>None\<close> while the function has not
  returned; otherwise the returned pair (an error, or the connection with a nil error)
  and the state of ticker and connection, if they were created.
\<close>

definition mockBackChannel ::
  "string \<Rightarrow> (string \<Rightarrow> flag \<Rightarrow> err + nat) \<Rightarrow> (nat \<Rightarrow> nat \<Rightarrow> err + Conn) \<Rightarrow> event list
     \<Rightarrow> ((err + Conn) \<times> backchannel option) option" where
  "mockBackChannel pathPrefix OpenFile NewHalfDuplexFileConn evs =
     (case OpenFile (pathPrefix @ ''/ttyS0c'') O_RDONLY of
        Inl e \<Rightarrow>
          Some (Inl (ErrorString (''failed to open cpipe for backchannel: '' @ Error e)), None)
      | Inr c \<Rightarrow>
          (case OpenFile (pathPrefix @ ''/ttyS0s'') O_WRONLY of
             Inl e \<Rightarrow>
               Some (Inl (ErrorString (''failed to open spipe for backchannel: '' @ Error e)), None)
           | Inr s \<Rightarrow>
               (case NewHalfDuplexFileConn c s of
                  Inl e \<Rightarrow>
                    Some (Inl (ErrorString
                      (''failed to create raw connection from ttyS0 pipe pair: '' @ Error e)), None)
                | Inr conn \<Rightarrow>
                    map_option (\<lambda>(r, ch). (r, Some ch))
                      (handshakeLoop conn evs (NewTicker 1000)))))"

text \<open>A run of ticks on each of which the handshake fails with the given error.\<close>

definition failing :: "err list \<Rightarrow> event list" where
  "failing errs = map (\<lambda>e. Tick (Some e)) errs"


section \<open>The session registry\<close>

text \<open>
  The attach server, its session registry and the client library
  (\<open>attachServerSSH\<close>, \<open>attach.SSHls\<close>) are exercised by the tests but their code is
  not among the sources. The definitions of this section follow the specification's
  data model and contracts.
\<close>

text \<open>Modelled from the spec: the lifecycle status of a Session (section 3); the
  type is declared in the missing registry code.\<close>

datatype status = Pending | Running | Detached | Exited

text \<open>Modelled from the spec: the Session of section 3, declared in the missing
  registry code. \<open>bound\<close> says that a Stream is bound to the session's I/O handles
  (at most one at a time).\<close>

record Session =
  session_id :: string
  name :: string
  tty :: bool
  attachable :: bool
  runBlock :: bool
  status :: status
  bound :: bool






section \<open>Sample inputs\<close>

text \<open>
  Two \<open>docker info\<close> answers: one lists the storage driver twice, stopped and then
  running; the other lists it once, running, after another entry.
\<close>

definition twice_listed_body :: bytes where
  \<open>twice_listed_body =
     ''{"Driver":"vsphere","SystemStatus":[["vsphere","STOPPED"],["vsphere","RUNNING"]]}''\<close>

definition twice_listed :: Info where
  "twice_listed =
     \<lparr>Driver = ''vsphere'',
      SystemStatus = [(''vsphere'', ''STOPPED''), (''vsphere'', ''RUNNING'')]\<rparr>"

definition running_body :: bytes where
  \<open>running_body =
     ''{"Driver":"vsphere","SystemStatus":[["VolumeStores","default"],["vsphere","RUNNING"]]}''\<close>

definition running_info :: Info where
  "running_info =
     \<lparr>Driver = ''vsphere'',
      SystemStatus = [(''VolumeStores'', ''default''), (''vsphere'', ''RUNNING'')]\<rparr>"

text \<open>\<open>json.Unmarshal\<close> on the two sample bodies; any other body is taken as malformed.\<close>

definition Unmarshal_sample :: "bytes \<Rightarrow> err + Info" where
  "Unmarshal_sample resBody =
     (if resBody = twice_listed_body then Inr twice_listed
      else if resBody = running_body then Inr running_info
      else Inl (ErrorString ''invalid character''))"

definition ok_response :: "bytes \<Rightarrow> Response" where
  "ok_response resBody = \<lparr>StatusCode = 200, Body = Reader resBody None\<rparr>"





text \<open>Pipes that open and a connection that can be created.\<close>

definition open_ok :: "string \<Rightarrow> flag \<Rightarrow> err + nat" where
  "open_ok path fl = Inr (case fl of O_RDONLY \<Rightarrow> 3 | O_WRONLY \<Rightarrow> 4)"

definition conn_ok :: "nat \<Rightarrow> nat \<Rightarrow> err + Conn" where
  "conn_ok c s = Inr (HalfDuplexFileConn c s)"





section \<open>The handshake loop of \<open>mockBackChannel\<close>\<close>

lemma handshakeLoop_failing:
  "EOF \<notin> set errs \<Longrightarrow>
   handshakeLoop conn (failing errs @ evs) ch =
     handshakeLoop conn evs
       (ch\<lparr>handshakes := handshakes ch + length errs, logged := logged ch @ errs\<rparr>)"
proof (induction errs arbitrary: ch)
  case Nil
  then show ?case by (simp add: failing_def)
next
  case (Cons e errs)
  then have "e \<noteq> EOF" and "EOF \<notin> set errs" by auto
  with Cons.IH show ?case by (simp add: failing_def)
qed

lemma handshakeLoop_blocked:
  "EOF \<notin> set errs \<Longrightarrow> handshakeLoop conn (failing errs) ch = None"
  using handshakeLoop_failing [of errs conn "[]" ch] by simp

text \<open>
  C2. Once the pipes are open and the connection exists, the handshake is attempted on
  every tick of a ticker with a fixed period of 1000 ms. While the attempts fail with
  errors other than end-of-stream the function does not return: each error is logged
  and the next tick brings the next attempt. An attempt that fails with \<open>io.EOF\<close> (the
  peer closed its end) ends the function with that error; nothing that happens later
  is looked at, so it is not retried. When the caller's context is done, the
  connection is closed, the ticker stopped and the context's error returned.
\<close>

theorem mockBackChannel_handshake:
  assumes "OpenFile (pathPrefix @ ''/ttyS0c'') O_RDONLY = Inr c"
    and "OpenFile (pathPrefix @ ''/ttyS0s'') O_WRONLY = Inr s"
    and "NewHalfDuplexFileConn c s = Inr conn"
    and "EOF \<notin> set errs"
  shows
   "mockBackChannel pathPrefix OpenFile NewHalfDuplexFileConn (failing errs @ Tick (Some EOF) # later) =
      Some (Inl EOF, Some \<lparr>interval_ms = 1000, ticker_stopped = False, conn_closed = False,
                           handshakes = length errs + 1, logged = errs\<rparr>)
    \<and> mockBackChannel pathPrefix OpenFile NewHalfDuplexFileConn (failing errs @ CtxDone ce # later) =
      Some (Inl ce, Some \<lparr>interval_ms = 1000, ticker_stopped = True, conn_closed = True,
                          handshakes = length errs, logged = errs\<rparr>)
    \<and> mockBackChannel pathPrefix OpenFile NewHalfDuplexFileConn (failing errs) = None"
  using assms
  by (simp add: mockBackChannel_def handshakeLoop_failing handshakeLoop_blocked NewTicker_def)

theorem mockBackChannel_handshake_witness:
  "mockBackChannel ''/tmp'' open_ok conn_ok
      [Tick (Some (ErrorString ''timeout'')), Tick (Some EOF), Tick None] =
      Some (Inl EOF, Some \<lparr>interval_ms = 1000, ticker_stopped = False, conn_closed = False,
                           handshakes = 2, logged = [ErrorString ''timeout'']\<rparr>)
   \<and> mockBackChannel ''/tmp'' open_ok conn_ok
      [Tick (Some (ErrorString ''timeout'')), CtxDone DeadlineExceeded, Tick None] =
      Some (Inl DeadlineExceeded, Some \<lparr>interval_ms = 1000, ticker_stopped = True, conn_closed = True,
                           handshakes = 1, logged = [ErrorString ''timeout'']\<rparr>)
   \<and> mockBackChannel ''/tmp'' open_ok conn_ok [Tick (Some (ErrorString ''timeout''))] = None"
  using mockBackChannel_handshake [of open_ok "''/tmp''" 3 4 conn_ok "HalfDuplexFileConn 3 4"
      "[ErrorString ''timeout'']" "[Tick None]" DeadlineExceeded]
  by (simp add: open_ok_def conn_ok_def failing_def)


section \<open>The waits of \<open>ensureApplianceInitializes\<close>\<close>















section \<open>\<open>isPortLayerRunning\<close> and the first status entry of the driver\<close>

lemma statusLoop_first_match:
  "statusLoop driver sts \<longleftrightarrow>
     (\<exists>before after. sts = before @ (driver, ''RUNNING'') # after \<and> driver \<notin> fst ` set before)"
proof (induction sts)
  case Nil
  then show ?case by simp
next
  case (Cons status rest)
  show ?case
  proof (cases "fst status = driver")
    case True
    have "snd status = ''RUNNING'' \<longleftrightarrow>
        (\<exists>before after. status # rest = before @ (driver, ''RUNNING'') # after
           \<and> driver \<notin> fst ` set before)"
    proof
      assume "snd status = ''RUNNING''"
      with True have "status # rest = [] @ (driver, ''RUNNING'') # rest" by (cases status) simp
      then show "\<exists>before after. status # rest = before @ (driver, ''RUNNING'') # after
           \<and> driver \<notin> fst ` set before" by fastforce
    next
      assume "\<exists>before after. status # rest = before @ (driver, ''RUNNING'') # after
           \<and> driver \<notin> fst ` set before"
      then obtain before after where eq: "status # rest = before @ (driver, ''RUNNING'') # after"
        and no: "driver \<notin> fst ` set before" by blast
      show "snd status = ''RUNNING''"
      proof (cases before)
        case Nil
        with eq show ?thesis by simp
      next
        case (Cons b bs)
        with eq have "b = status" by simp
        with Cons no True show ?thesis by auto
      qed
    qed
    with True show ?thesis by simp
  next
    case False
    have "(\<exists>before after. rest = before @ (driver, ''RUNNING'') # after \<and> driver \<notin> fst ` set before)
       \<longleftrightarrow> (\<exists>before after. status # rest = before @ (driver, ''RUNNING'') # after
           \<and> driver \<notin> fst ` set before)"
    proof
      assume "\<exists>before after. rest = before @ (driver, ''RUNNING'') # after \<and> driver \<notin> fst ` set before"
      then obtain before after where "rest = before @ (driver, ''RUNNING'') # after"
        and "driver \<notin> fst ` set before" by blast
      with False have "status # rest = (status # before) @ (driver, ''RUNNING'') # after
        \<and> driver \<notin> fst ` set (status # before)" by auto
      then show "\<exists>before after. status # rest = before @ (driver, ''RUNNING'') # after
           \<and> driver \<notin> fst ` set before" by blast
    next
      assume "\<exists>before after. status # rest = before @ (driver, ''RUNNING'') # after
           \<and> driver \<notin> fst ` set before"
      then obtain before after where eq: "status # rest = before @ (driver, ''RUNNING'') # after"
        and no: "driver \<notin> fst ` set before" by blast
      show "\<exists>before after. rest = before @ (driver, ''RUNNING'') # after \<and> driver \<notin> fst ` set before"
      proof (cases before)
        case Nil
        with eq False show ?thesis by auto
      next
        case (Cons b bs)
        with eq no have "rest = bs @ (driver, ''RUNNING'') # after \<and> driver \<notin> fst ` set bs"
          by auto
        then show ?thesis by blast
      qed
    qed
    with False Cons.IH show ?thesis by simp
  qed
qed

text \<open>
  C10, amended. \<open>isPortLayerRunning\<close> is a total function into \<open>bool\<close>: a read error,
  a JSON error and a status list without an entry for the driver all give \<open>False\<close>,
  never an error. It returns \<open>True\<close> exactly when the body reads to its end without
  error, unmarshals as docker system info, and the first \<open>SystemStatus\<close> entry whose
  name equals the reported \<open>Driver\<close> has the value \<open>RUNNING\<close>.
\<close>

theorem isPortLayerRunning_iff_first_driver_status:
  "isPortLayerRunning Unmarshal res \<longleftrightarrow>
     (\<exists>resBody sysInfo before after.
        ReadAll (Body res) = (resBody, None) \<and>
        Unmarshal resBody = Inr sysInfo \<and>
        SystemStatus sysInfo = before @ (Driver sysInfo, ''RUNNING'') # after \<and>
        Driver sysInfo \<notin> fst ` set before)"
proof (cases "ReadAll (Body res)")
  case (Pair resBody failure)
  show ?thesis
  proof (cases failure)
    case (Some e)
    with Pair show ?thesis by (simp add: isPortLayerRunning_def)
  next
    case None
    show ?thesis
    proof (cases "Unmarshal resBody")
      case (Inl e)
      with Pair None show ?thesis by (simp add: isPortLayerRunning_def)
    next
      case (Inr sysInfo)
      with Pair None show ?thesis
        by (simp add: isPortLayerRunning_def statusLoop_first_match)
    qed
  qed
qed

theorem isPortLayerRunning_iff_first_driver_status_witness:
  "isPortLayerRunning Unmarshal_sample (ok_response running_body)"
proof -
  have "SystemStatus running_info =
      [(''VolumeStores'', ''default'')] @ (Driver running_info, ''RUNNING'') # []
      \<and> Driver running_info \<notin> fst ` set [(''VolumeStores'', ''default'')]"
    by (simp add: running_info_def)
  moreover have "ReadAll (Body (ok_response running_body)) = (running_body, None)"
    by (simp add: ok_response_def)
  moreover have "Unmarshal_sample running_body = Inr running_info"
    by (simp add: Unmarshal_sample_def running_body_def twice_listed_body_def)
  ultimately show ?thesis
    using isPortLayerRunning_iff_first_driver_status [of Unmarshal_sample "ok_response running_body"]
    by blast
qed

text \<open>
  C10 as stated fails: the body reads fully, unmarshals, and contains an entry named
  after the driver with the value \<open>RUNNING\<close>, yet the function returns \<open>False\<close>,
  because an earlier entry of the same name is \<open>STOPPED\<close>.
\<close>

theorem isPortLayerRunning_later_entry_counterexample:
  "ReadAll (Body (ok_response twice_listed_body)) = (twice_listed_body, None) \<and>
   Unmarshal_sample twice_listed_body = Inr twice_listed \<and>
   (Driver twice_listed, ''RUNNING'') \<in> set (SystemStatus twice_listed) \<and>
   \<not> isPortLayerRunning Unmarshal_sample (ok_response twice_listed_body)"
  by (simp add: isPortLayerRunning_def ok_response_def Unmarshal_sample_def twice_listed_def)


section \<open>Enumerating the registry\<close>







end
